theory Spec2Isabelle
  imports Complex_Main "HOL-Library.Sublist"
begin

section \<open>The email parser function app: \<^verbatim>\<open>function_app.py\<close>\<close>

text \<open>
  The module has two HTTP handlers, \<^verbatim>\<open>parse_email\<close> and \<^verbatim>\<open>health\<close>, and one pydantic
  model, \<^verbatim>\<open>ReservationResponse\<close>. The handlers are embedded as functions of everything
  they read: the process environment, the request, and the libraries they call (the chat
  completion client, \<^verbatim>\<open>json.loads\<close>, \<^verbatim>\<open>str\<close> of an exception). What the interpreter and
  pydantic do with the values (truthiness, \<^verbatim>\<open>in\<close>, \<^verbatim>\<open>dict.get\<close>, keyword expansion, field
  validation in pydantic's default mode) is written out as definitions.
\<close>

subsection \<open>Python values decoded from JSON\<close>

text \<open>
  A Python \<^verbatim>\<open>float\<close>: the finite values by their rational value (both zeros are
  \<open>Finite 0\<close>), the infinities and not-a-number, which \<^verbatim>\<open>json.loads\<close> accepts. Only
  comparison with zero and one is ever made.
\<close>

datatype pyfloat = Finite rat | PosInf | NegInf | NaN

text \<open>
  A Python \<^verbatim>\<open>str\<close> is a sequence of code points, and may hold a lone surrogate (a code
  point from U+D800 to U+DFFF): \<^verbatim>\<open>json.loads\<close> makes one from the escape \<^verbatim>\<open>\ud800\<close>. A \<^verbatim>\<open>str\<close>
  is modelled as a \<open>string\<close> of bytes: the UTF-8 encoding of its code points, a lone
  surrogate, which UTF-8 proper does not encode, as the three bytes that Python's
  \<^verbatim>\<open>surrogatepass\<close> handler writes for it (\<^verbatim>\<open>0xED\<close>, a byte from \<^verbatim>\<open>0xA0\<close> to \<^verbatim>\<open>0xBF\<close>, a
  continuation byte). Every \<^verbatim>\<open>str\<close> has exactly one such encoding; ASCII text is itself; a
  \<^verbatim>\<open>str\<close> is empty when its bytes are; an ASCII text is a substring of a \<^verbatim>\<open>str\<close> exactly
  when its bytes are a contiguous part of the bytes, the encoding being
  self-synchronising. \<^verbatim>\<open>0xED\<close> is never a continuation byte, and before a code point that
  is no surrogate it is followed by a byte from \<^verbatim>\<open>0x80\<close> to \<^verbatim>\<open>0x9F\<close>, so a \<^verbatim>\<open>str\<close> holds a
  lone surrogate, and \<^verbatim>\<open>s.encode("utf-8")\<close> raises, exactly when \<^verbatim>\<open>0xED\<close> is followed by a
  byte whose three top bits are 101.
\<close>

fun lone_surrogate :: "string \<Rightarrow> bool" where
  "lone_surrogate (a # b # s) =
     (a = CHR 0xED \<and> digit7 b \<and> \<not> digit6 b \<and> digit5 b \<or> lone_surrogate (b # s))"
| "lone_surrogate s = False"

text \<open>
  What \<^verbatim>\<open>json.loads\<close> and \<^verbatim>\<open>get_json\<close> return: \<^verbatim>\<open>None\<close>, \<^verbatim>\<open>bool\<close>, \<^verbatim>\<open>int\<close>, \<^verbatim>\<open>float\<close>,
  \<^verbatim>\<open>str\<close>, \<^verbatim>\<open>list\<close>, \<^verbatim>\<open>dict\<close>. A \<^verbatim>\<open>dict\<close> is an association list in insertion order, read
  with \<open>map_of\<close>.
\<close>

datatype json =
    JNull
  | JBool bool
  | JInt int
  | JFloat pyfloat
  | JString string
  | JArray "json list"
  | JObject "(string \<times> json) list"

text \<open>\<^verbatim>\<open>bool(v)\<close>, which \<^verbatim>\<open>not v\<close> negates.\<close>

fun truthy :: "json \<Rightarrow> bool" where
  "truthy JNull = False"
| "truthy (JBool b) = b"
| "truthy (JInt i) = (i \<noteq> 0)"
| "truthy (JFloat f) = (f \<noteq> Finite 0)"
| "truthy (JString s) = (s \<noteq> [])"
| "truthy (JArray xs) = (xs \<noteq> [])"
| "truthy (JObject kvs) = (kvs \<noteq> [])"

text \<open>
  Truthiness of the result of \<^verbatim>\<open>os.environ.get(name)\<close>: \<^verbatim>\<open>None\<close> and the empty string
  are false.
\<close>

fun truthy_opt :: "string option \<Rightarrow> bool" where
  "truthy_opt None = False"
| "truthy_opt (Some s) = (s \<noteq> [])"

text \<open>\<^verbatim>\<open>a and b\<close> on two such values: \<^verbatim>\<open>a\<close> when it is false, else \<^verbatim>\<open>b\<close>.\<close>

definition py_and :: "string option \<Rightarrow> string option \<Rightarrow> string option" where
  "py_and a b = (if truthy_opt a then b else a)"

text \<open>\<^verbatim>\<open>d.get(key, default)\<close> on a \<^verbatim>\<open>dict\<close>.\<close>

definition dict_get :: "(string \<times> json) list \<Rightarrow> string \<Rightarrow> json \<Rightarrow> json" where
  "dict_get d k dflt = (case map_of d k of None \<Rightarrow> dflt | Some v \<Rightarrow> v)"

subsection \<open>Exceptions\<close>

text \<open>A location inside the validated input and the kind of a pydantic error.\<close>

datatype loc_item = Field string | Index nat

datatype error_type = Missing | BoolInvalid | StringType | ListType

type_synonym error_detail = "loc_item list \<times> error_type"

text \<open>
  The exceptions the handlers can meet, all subclasses of \<^verbatim>\<open>Exception\<close>. The interpreter's
  own carry the offending value: \<open>AttributeError v\<close> is \<^verbatim>\<open>v.get\<close> on a value without that
  attribute, \<open>NotContainer v\<close> is \<^verbatim>\<open>x in v\<close> on a value that is no container, \<open>NotMapping v\<close>
  is \<^verbatim>\<open>f(**v)\<close> on a value that is no mapping, \<open>NotText\<close> is \<^verbatim>\<open>json.loads(None)\<close>; the last
  three are \<^verbatim>\<open>TypeError\<close>s. \<open>JSONDecodeError\<close>, a subclass of \<^verbatim>\<open>ValueError\<close>, carries what the
  decoder says; \<open>ValueError\<close> is a \<^verbatim>\<open>ValueError\<close> of no subclass named here, as \<^verbatim>\<open>json.loads\<close>
  raises for an integer of more digits than the interpreter converts; \<open>RecursionError\<close> is
  what it raises for nesting deeper than the interpreter's stack allows.
  \<open>PydanticSerializationError\<close>, also a subclass of \<^verbatim>\<open>ValueError\<close>, carries the \<^verbatim>\<open>str\<close> that
  could not be written as UTF-8. \<open>OtherException\<close> is any other exception, by what it says.
\<close>

datatype type_error = NotContainer json | NotMapping json | NotText

datatype py_exception =
    AttributeError json
  | TypeError type_error
  | JSONDecodeError string
  | ValidationError "error_detail list"
  | ValueError string
  | RecursionError
  | PydanticSerializationError string
  | OtherException string

subsection \<open>The pydantic model \<^verbatim>\<open>ReservationResponse\<close>\<close>

record ReservationResponse =
  is_reservation :: bool
  date :: "string option"
  start_time :: "string option"
  end_time :: "string option"
  court :: "string option"
  organizer :: "string option"
  players :: "string list option"
  error :: "string option"

text \<open>
  The handler calls \<^verbatim>\<open>model_dump_json\<close>, so the library is pydantic 2. The class sets no
  \<^verbatim>\<open>model_config\<close> and no field is marked strict, so pydantic validates in its default
  (lax) mode and ignores unknown keys. In that mode a \<^verbatim>\<open>bool\<close> field takes a \<^verbatim>\<open>bool\<close> as it
  is, and converts a \<^verbatim>\<open>str\<close>, an \<^verbatim>\<open>int\<close> or a \<^verbatim>\<open>float\<close> that spells a truth value, tried in
  this order: the strings \<^verbatim>\<open>0 f n no off false\<close> and \<^verbatim>\<open>1 t y on yes true\<close>, the words compared
  ignoring ASCII case; the integers 0 and 1; the floats 0.0 and 1.0. Everything else is
  an error.
\<close>

definition ascii_lower :: "char \<Rightarrow> char" where
  "ascii_lower c =
     (case map_of (zip ''ABCDEFGHIJKLMNOPQRSTUVWXYZ'' ''abcdefghijklmnopqrstuvwxyz'') c of
        None \<Rightarrow> c
      | Some l \<Rightarrow> l)"

definition eq_ignore_ascii_case :: "string \<Rightarrow> string \<Rightarrow> bool" where
  "eq_ignore_ascii_case a b = (map ascii_lower a = map ascii_lower b)"

definition str_as_bool :: "string \<Rightarrow> bool option" where
  "str_as_bool s =
     (if s = ''0''
         \<or> eq_ignore_ascii_case s ''f''
         \<or> eq_ignore_ascii_case s ''n''
         \<or> eq_ignore_ascii_case s ''no''
         \<or> eq_ignore_ascii_case s ''off''
         \<or> eq_ignore_ascii_case s ''false''
      then Some False
      else if s = ''1''
         \<or> eq_ignore_ascii_case s ''t''
         \<or> eq_ignore_ascii_case s ''y''
         \<or> eq_ignore_ascii_case s ''on''
         \<or> eq_ignore_ascii_case s ''yes''
         \<or> eq_ignore_ascii_case s ''true''
      then Some True
      else None)"

fun validate_bool :: "json \<Rightarrow> bool option" where
  "validate_bool (JBool b) = Some b"
| "validate_bool (JString s) = str_as_bool s"
| "validate_bool (JInt i) = (if i = 0 then Some False else if i = 1 then Some True else None)"
| "validate_bool (JFloat f) =
     (if f = Finite 0 then Some False else if f = Finite 1 then Some True else None)"
| "validate_bool JNull = None"
| "validate_bool (JArray xs) = None"
| "validate_bool (JObject kvs) = None"

text \<open>
  The field validators take the name of the field and what the keyword arguments hold
  for it (\<open>None\<close>: no such key), and return the field's value or its errors.
  \<^verbatim>\<open>is_reservation: bool\<close> has no default. \<^verbatim>\<open>Optional[str] = None\<close> takes \<^verbatim>\<open>None\<close> and a \<^verbatim>\<open>str\<close>;
  numbers are not converted to strings. \<^verbatim>\<open>Optional[list[str]] = None\<close> takes \<^verbatim>\<open>None\<close> and a
  \<^verbatim>\<open>list\<close> whose items are all \<^verbatim>\<open>str\<close>, and keeps their order.
\<close>

definition required_bool :: "string \<Rightarrow> json option \<Rightarrow> error_detail list + bool" where
  "required_bool name arg =
     (case arg of
        None \<Rightarrow> Inl [([Field name], Missing)]
      | Some v \<Rightarrow>
          (case validate_bool v of
             None \<Rightarrow> Inl [([Field name], BoolInvalid)]
           | Some b \<Rightarrow> Inr b))"

definition optional_str :: "string \<Rightarrow> json option \<Rightarrow> error_detail list + string option" where
  "optional_str name arg =
     (case arg of
        None \<Rightarrow> Inr None
      | Some JNull \<Rightarrow> Inr None
      | Some (JString s) \<Rightarrow> Inr (Some s)
      | Some _ \<Rightarrow> Inl [([Field name], StringType)])"

fun str_items :: "string \<Rightarrow> nat \<Rightarrow> json list \<Rightarrow> error_detail list \<times> string list" where
  "str_items name i [] = ([], [])"
| "str_items name i (JString s # vs) =
     (case str_items name (Suc i) vs of (errs, items) \<Rightarrow> (errs, s # items))"
| "str_items name i (v # vs) =
     (case str_items name (Suc i) vs of
        (errs, items) \<Rightarrow> (([Field name, Index i], StringType) # errs, items))"

definition optional_str_list ::
  "string \<Rightarrow> json option \<Rightarrow> error_detail list + string list option" where
  "optional_str_list name arg =
     (case arg of
        None \<Rightarrow> Inr None
      | Some JNull \<Rightarrow> Inr None
      | Some (JArray vs) \<Rightarrow>
          (case str_items name 0 vs of
             ([], items) \<Rightarrow> Inr (Some items)
           | (errs, items) \<Rightarrow> Inl errs)
      | Some _ \<Rightarrow> Inl [([Field name], ListType)])"

definition errors_of :: "error_detail list + 'a \<Rightarrow> error_detail list" where
  "errors_of r = (case r of Inl errs \<Rightarrow> errs | Inr v \<Rightarrow> [])"

text \<open>
  \<^verbatim>\<open>ReservationResponse(**kwargs)\<close> for a \<^verbatim>\<open>dict\<close> of keyword arguments: every field is
  validated, in the order of declaration, and the errors of all fields are raised
  together as one \<^verbatim>\<open>ValidationError\<close>.
\<close>

definition ReservationResponse_init ::
  "(string \<times> json) list \<Rightarrow> py_exception + ReservationResponse" where
  "ReservationResponse_init kwargs =
     (let v1 = required_bool ''is_reservation'' (map_of kwargs ''is_reservation'');
          v2 = optional_str ''date'' (map_of kwargs ''date'');
          v3 = optional_str ''start_time'' (map_of kwargs ''start_time'');
          v4 = optional_str ''end_time'' (map_of kwargs ''end_time'');
          v5 = optional_str ''court'' (map_of kwargs ''court'');
          v6 = optional_str ''organizer'' (map_of kwargs ''organizer'');
          v7 = optional_str_list ''players'' (map_of kwargs ''players'');
          v8 = optional_str ''error'' (map_of kwargs ''error'')
      in case (v1, v2, v3, v4, v5, v6, v7, v8) of
           (Inr a, Inr b, Inr c, Inr d, Inr e, Inr f, Inr g, Inr h) \<Rightarrow>
             Inr \<lparr>is_reservation = a, date = b, start_time = c, end_time = d, court = e,
                  organizer = f, players = g, error = h\<rparr>
         | _ \<Rightarrow>
             Inl (ValidationError
                   (errors_of v1 @ errors_of v2 @ errors_of v3 @ errors_of v4 @
                    errors_of v5 @ errors_of v6 @ errors_of v7 @ errors_of v8)))"

text \<open>
  \<^verbatim>\<open>ReservationResponse(**result_dict)\<close>: expanding a value that is not a mapping raises
  \<^verbatim>\<open>TypeError\<close> before pydantic is reached.
\<close>

definition construct :: "json \<Rightarrow> py_exception + ReservationResponse" where
  "construct result_dict =
     (case result_dict of
        JObject kwargs \<Rightarrow> ReservationResponse_init kwargs
      | _ \<Rightarrow> Inl (TypeError (NotMapping result_dict)))"

text \<open>
  \<^verbatim>\<open>model_dump_json()\<close>, as the JSON value whose text it returns: every field, in the
  order of declaration, \<^verbatim>\<open>None\<close> as \<^verbatim>\<open>null\<close>. The text is written as UTF-8, so a \<^verbatim>\<open>str\<close>
  holding a lone surrogate cannot be written: the method raises
  \<^verbatim>\<open>PydanticSerializationError\<close> at the first such \<^verbatim>\<open>str\<close> and returns nothing.
\<close>

definition opt_str :: "string option \<Rightarrow> string list" where
  "opt_str v = (case v of None \<Rightarrow> [] | Some s \<Rightarrow> [s])"

definition str_values :: "ReservationResponse \<Rightarrow> string list" where
  "str_values r =
     opt_str (date r) @ opt_str (start_time r) @ opt_str (end_time r) @ opt_str (court r) @
     opt_str (organizer r) @ (case players r of None \<Rightarrow> [] | Some items \<Rightarrow> items) @
     opt_str (error r)"

definition dump_str :: "string option \<Rightarrow> json" where
  "dump_str v = (case v of None \<Rightarrow> JNull | Some s \<Rightarrow> JString s)"

definition dump_str_list :: "string list option \<Rightarrow> json" where
  "dump_str_list v = (case v of None \<Rightarrow> JNull | Some items \<Rightarrow> JArray (map JString items))"

definition model_dump_json :: "ReservationResponse \<Rightarrow> py_exception + json" where
  "model_dump_json r =
     (case List.find lone_surrogate (str_values r) of
        Some s \<Rightarrow> Inl (PydanticSerializationError s)
      | None \<Rightarrow>
          Inr (JObject
                [(''is_reservation'', JBool (is_reservation r)),
                 (''date'', dump_str (date r)),
                 (''start_time'', dump_str (start_time r)),
                 (''end_time'', dump_str (end_time r)),
                 (''court'', dump_str (court r)),
                 (''organizer'', dump_str (organizer r)),
                 (''players'', dump_str_list (players r)),
                 (''error'', dump_str (error r))]))"

subsection \<open>The runtime around the handlers\<close>

text \<open>\<^verbatim>\<open>os.environ\<close>: a mapping from names to strings.\<close>

type_synonym environ = "string \<rightharpoonup> string"

text \<open>
  The request, by what \<^verbatim>\<open>req.get_json()\<close> does: \<open>None\<close> when it raises \<^verbatim>\<open>ValueError\<close>,
  else the decoded payload, which may be any JSON value.
\<close>

record HttpRequest =
  get_json :: "json option"

text \<open>
  \<^verbatim>\<open>func.HttpResponse(text, status_code=..., mimetype=...)\<close>. The body is kept as the JSON
  value that \<^verbatim>\<open>json.dumps\<close> or \<^verbatim>\<open>model_dump_json\<close> turns into text.
\<close>

record HttpResponse =
  body :: json
  status_code :: int
  mimetype :: string

definition json_response :: "json \<Rightarrow> int \<Rightarrow> HttpResponse" where
  "json_response b code = \<lparr>body = b, status_code = code, mimetype = ''application/json''\<rparr>"

text \<open>
  One use of the model client: the arguments of \<^verbatim>\<open>AzureOpenAI(...)\<close> and of
  \<^verbatim>\<open>client.chat.completions.create(...)\<close>, messages as pairs of role and content.
\<close>

record completion_call =
  azure_endpoint :: string
  api_key :: string
  api_version :: string
  model :: string
  messages :: "(string \<times> string) list"
  temperature :: int
  max_tokens :: int
  response_format :: "(string \<times> string) list"

text \<open>
  What comes of it: an exception raised anywhere from building the client to reading
  \<^verbatim>\<open>response.choices[0].message.content\<close>, or that content, which the client types as
  an optional string.
\<close>

datatype completion_outcome = Raises py_exception | Content "string option"

text \<open>
  The libraries the handler calls, as functions: the model client, \<^verbatim>\<open>json.loads\<close> on a
  string (the decoded value or the exception it raises), \<^verbatim>\<open>str(e)\<close> of an exception, and
  the text an f-string gives a value that is not a \<^verbatim>\<open>str\<close>.
\<close>

record runtime =
  chat_completion :: "completion_call \<Rightarrow> completion_outcome"
  json_loads :: "string \<Rightarrow> py_exception + json"
  exc_str :: "py_exception \<Rightarrow> string"
  format_value :: "json \<Rightarrow> string"

subsection \<open>\<^verbatim>\<open>parse_email\<close>\<close>

definition newline :: string where
  "newline = [CHR 0x0A]"

fun join_lines :: "string list \<Rightarrow> string" where
  "join_lines [] = []"
| "join_lines [l] = l"
| "join_lines (l # ls) = l @ newline @ join_lines ls"

definition SYSTEM_PROMPT :: string where
  \<open>SYSTEM_PROMPT = join_lines
    [''You are a specialized email parser for pickleball court reservations from Pickle Planner / Rally Club.'',
     '''',
     ''Your task is to extract reservation details from email text. The emails may be:'',
     ''- Direct reservation confirmations'',
     ''- Forwarded emails (with headers like "Begin forwarded message:")'',
     ''- Various formats with or without proper line breaks'',
     '''',
     ''Extract the following information:'',
     ''1. **date**: The reservation date (not the email sent date if forwarded). Format as YYYY-MM-DD.'',
     ''2. **start_time**: Start time (e.g., "5:30pm", "8:00am")'',
     ''3. **end_time**: End time (e.g., "7:00pm", "9:30am")'',
     ''4. **court**: Court location (e.g., "North", "South", "North, South", "East", "West", "Center")'',
     ''5. **organizer**: The person whose reservation it is (from "Name's Reservation")'',
     ''6. **players**: List of all player names'',
     '''',
     ''Important parsing rules:'',
     ''- For forwarded emails, look for the ACTUAL reservation date (often followed by a day like "TUESDAY") not the forwarding date'',
     ''- Look for "following event:" as a marker for the actual reservation content'',
     ''- Player names appear after "Players" and before "Reservation Fee", "Fee Breakdown", "Total:", "Status:", or "The door code"'',
     ''- Courts are typically: North, South, East, West, Center (or combinations like "North, South")'',
     ''- If it's not a Rally Club / Pickle Planner reservation email, set is_reservation to false'',
     '''',
     ''Respond with valid JSON only, no markdown formatting.'']\<close>

text \<open>
  \<^verbatim>\<open>x in v\<close> for a string \<^verbatim>\<open>x\<close>: a substring test on a \<^verbatim>\<open>str\<close>, membership on a \<^verbatim>\<open>list\<close>, key
  membership on a \<^verbatim>\<open>dict\<close>, and \<^verbatim>\<open>TypeError\<close> on \<^verbatim>\<open>None\<close>, a \<^verbatim>\<open>bool\<close> and a number.
\<close>

fun py_in :: "string \<Rightarrow> json \<Rightarrow> py_exception + bool" where
  "py_in x (JString s) = Inr (sublist x s)"
| "py_in x (JArray vs) = Inr (JString x \<in> set vs)"
| "py_in x (JObject kvs) = Inr (x \<in> set (map fst kvs))"
| "py_in x JNull = Inl (TypeError (NotContainer JNull))"
| "py_in x (JBool b) = Inl (TypeError (NotContainer (JBool b)))"
| "py_in x (JInt i) = Inl (TypeError (NotContainer (JInt i)))"
| "py_in x (JFloat f) = Inl (TypeError (NotContainer (JFloat f)))"

text \<open>
  The condition of the quick check,
  \<^verbatim>\<open>"Rally Club" not in email_text and "Rally Club" not in email_subject\<close>: the subject is
  looked at only when the text does not hold the marker.
\<close>

definition skip_ai :: "json \<Rightarrow> json \<Rightarrow> py_exception + bool" where
  "skip_ai email_text email_subject =
     (case py_in ''Rally Club'' email_text of
        Inl e \<Rightarrow> Inl e
      | Inr True \<Rightarrow> Inr False
      | Inr False \<Rightarrow>
          (case py_in ''Rally Club'' email_subject of
             Inl e \<Rightarrow> Inl e
           | Inr found \<Rightarrow> Inr (\<not> found)))"

text \<open>A value inside the f-string: a \<^verbatim>\<open>str\<close> as it is, any other value as the runtime prints it.\<close>

definition format_field :: "runtime \<Rightarrow> json \<Rightarrow> string" where
  "format_field rt v = (case v of JString s \<Rightarrow> s | _ \<Rightarrow> format_value rt v)"

definition user_message :: "runtime \<Rightarrow> json \<Rightarrow> json \<Rightarrow> string" where
  "user_message rt email_subject email_text =
     ''Parse this reservation email:'' @ newline @ newline @
     ''Subject: '' @ format_field rt email_subject @ newline @ newline @
     ''Body:'' @ newline @
     format_field rt email_text @ newline @ newline @
     ''Extract the reservation details and respond with JSON.''"

definition completion_request ::
  "runtime \<Rightarrow> string \<Rightarrow> string \<Rightarrow> string \<Rightarrow> json \<Rightarrow> json \<Rightarrow> completion_call" where
  "completion_request rt endpoint key deployment email_subject email_text =
     \<lparr>azure_endpoint = endpoint,
      api_key = key,
      api_version = ''2024-02-01'',
      model = deployment,
      messages = [(''system'', SYSTEM_PROMPT),
                  (''user'', user_message rt email_subject email_text)],
      temperature = 0,
      max_tokens = 500,
      response_format = [(''type'', ''json_object'')]\<rparr>"

text \<open>The classes named by \<^verbatim>\<open>except (json.JSONDecodeError, ValidationError)\<close>.\<close>

fun parse_failure :: "py_exception \<Rightarrow> bool" where
  "parse_failure (JSONDecodeError m) = True"
| "parse_failure (ValidationError errs) = True"
| "parse_failure (AttributeError v) = False"
| "parse_failure (TypeError t) = False"
| "parse_failure (ValueError m) = False"
| "parse_failure RecursionError = False"
| "parse_failure (PydanticSerializationError s) = False"
| "parse_failure (OtherException m) = False"

text \<open>
  The inner \<^verbatim>\<open>try\<close>: decode the reply, build the model, serialise it. Its \<^verbatim>\<open>except\<close> clause
  answers 200 for the two classes above; any other exception goes on to the outer
  handler.
\<close>

definition validate_reply :: "runtime \<Rightarrow> string option \<Rightarrow> py_exception + HttpResponse" where
  "validate_reply rt result_text =
     (let attempt =
        (case result_text of
           None \<Rightarrow> Inl (TypeError NotText)
         | Some t \<Rightarrow>
             (case json_loads rt t of
                Inl e \<Rightarrow> Inl e
              | Inr result_dict \<Rightarrow>
                  (case construct result_dict of
                     Inl e \<Rightarrow> Inl e
                   | Inr reservation \<Rightarrow>
                       (case model_dump_json reservation of
                          Inl e \<Rightarrow> Inl e
                        | Inr dumped \<Rightarrow> Inr (json_response dumped 200)))))
      in case attempt of
           Inr response \<Rightarrow> Inr response
         | Inl e \<Rightarrow>
             if parse_failure e
             then Inr (json_response
                        (JObject [(''is_reservation'', JBool False),
                                  (''error'', JString (''Failed to parse AI response: '' @ exc_str rt e))])
                        200)
             else Inl e)"

text \<open>
  The outer \<^verbatim>\<open>try\<close>: call the model and validate its reply; \<^verbatim>\<open>except Exception\<close> answers
  500 for whatever is raised inside.
\<close>

definition ask_model :: "runtime \<Rightarrow> completion_call \<Rightarrow> HttpResponse" where
  "ask_model rt call =
     (let attempt =
        (case chat_completion rt call of
           Raises e \<Rightarrow> Inl e
         | Content result_text \<Rightarrow> validate_reply rt result_text)
      in case attempt of
           Inr response \<Rightarrow> response
         | Inl e \<Rightarrow>
             json_response
               (JObject [(''error'', JString (''AI processing failed: '' @ exc_str rt e))]) 500)"

text \<open>
  One run of a handler: the response it returns or the exception it lets escape, and the
  calls it made to the model client, in order.
\<close>

record invocation =
  result :: "py_exception + HttpResponse"
  model_calls :: "completion_call list"

definition returns :: "HttpResponse \<Rightarrow> invocation" where
  "returns response = \<lparr>result = Inr response, model_calls = []\<rparr>"

definition raises :: "py_exception \<Rightarrow> invocation" where
  "raises e = \<lparr>result = Inl e, model_calls = []\<rparr>"

text \<open>
  The handler, statement by statement. Past the configuration check both values are
  strings that are not empty, which is where \<open>the\<close> reads them.
\<close>

definition parse_email :: "runtime \<Rightarrow> environ \<Rightarrow> HttpRequest \<Rightarrow> invocation" where
  "parse_email rt env req =
     (let endpoint = env ''AZURE_OPENAI_ENDPOINT'';
          key = env ''AZURE_OPENAI_API_KEY'';
          deployment = (case env ''AZURE_OPENAI_DEPLOYMENT_NAME'' of
                          None \<Rightarrow> ''gpt-4o-mini'' | Some name \<Rightarrow> name)
      in if \<not> truthy_opt endpoint \<or> \<not> truthy_opt key
         then returns (json_response
                         (JObject [(''error'', JString ''Azure OpenAI not configured'')]) 500)
         else
           (case get_json req of
              None \<Rightarrow>
                returns (json_response
                           (JObject [(''error'', JString ''Invalid JSON in request body'')]) 400)
            | Some (JObject req_body) \<Rightarrow>
                (let email_text = dict_get req_body ''email_text'' (JString '''');
                     email_subject = dict_get req_body ''email_subject'' (JString '''')
                 in if \<not> truthy email_text
                    then returns (json_response
                                    (JObject [(''error'', JString ''email_text is required'')]) 400)
                    else
                      (case skip_ai email_text email_subject of
                         Inl e \<Rightarrow> raises e
                       | Inr True \<Rightarrow>
                           returns (json_response
                                      (JObject [(''is_reservation'', JBool False)]) 200)
                       | Inr False \<Rightarrow>
                           (let call = completion_request rt (the endpoint) (the key)
                                         deployment email_subject email_text
                            in \<lparr>result = Inr (ask_model rt call), model_calls = [call]\<rparr>)))
            | Some v \<Rightarrow> raises (AttributeError v)))"

subsection \<open>\<^verbatim>\<open>health\<close>\<close>

definition health :: "environ \<Rightarrow> HttpRequest \<Rightarrow> HttpResponse" where
  "health env req =
     (let endpoint = env ''AZURE_OPENAI_ENDPOINT'';
          key = env ''AZURE_OPENAI_API_KEY''
      in json_response
           (JObject [(''status'', JString ''ok''),
                     (''openai_configured'', JBool (truthy_opt (py_and endpoint key)))])
           200)"

subsection \<open>Reading a response, and the mocks of the test suite\<close>

text \<open>\<^verbatim>\<open>v.get(k)\<close> on a decoded body: the value under a key of an object.\<close>

definition json_field :: "json \<Rightarrow> string \<Rightarrow> json option" where
  "json_field v k = (case v of JObject kvs \<Rightarrow> map_of kvs k | _ \<Rightarrow> None)"

text \<open>
  The environment the tests patch in, and a runtime in the manner of their mocked client:
  the client answers every call with the given outcome, and the decoder knows the one
  reply text it is given the decoding of.
\<close>

definition test_environ :: environ where
  "test_environ =
     [''AZURE_OPENAI_ENDPOINT'' \<mapsto> ''https://test.openai.azure.com'',
      ''AZURE_OPENAI_API_KEY'' \<mapsto> ''test-key'']"

fun mock_str :: "py_exception \<Rightarrow> string" where
  "mock_str (JSONDecodeError m) = m"
| "mock_str (OtherException m) = m"
| "mock_str (ValidationError errs) = ''validation error''"
| "mock_str (TypeError t) = ''type error''"
| "mock_str (ValueError m) = m"
| "mock_str RecursionError = ''maximum recursion depth exceeded''"
| "mock_str (PydanticSerializationError s) = ''serialization error''"
| "mock_str (AttributeError v) = ''attribute error''"

definition mock_loads :: "string \<Rightarrow> py_exception + json \<Rightarrow> string \<Rightarrow> py_exception + json" where
  "mock_loads known decoded t =
     (if t = known then decoded else Inl (OtherException ''no decoding given''))"

definition mock_format :: "json \<Rightarrow> string" where
  "mock_format v = ''<value>''"

definition mock_client :: "completion_outcome \<Rightarrow> completion_call \<Rightarrow> completion_outcome" where
  "mock_client outcome call = outcome"

definition mock_runtime :: "string \<Rightarrow> py_exception + json \<Rightarrow> runtime" where
  "mock_runtime reply decoded =
     \<lparr>chat_completion = mock_client (Content (Some reply)),
      json_loads = mock_loads reply decoded,
      exc_str = mock_str,
      format_value = mock_format\<rparr>"

definition reply_not_reservation :: string where
  \<open>reply_not_reservation = ''{"is_reservation": false}''\<close>

definition reply_with_error :: string where
  \<open>reply_with_error = ''{"is_reservation": false, "error": "Could not parse email"}''\<close>

definition full_reservation :: "(string \<times> json) list" where
  "full_reservation =
     [(''is_reservation'', JBool True),
      (''date'', JString ''2024-12-23''),
      (''start_time'', JString ''1:30pm''),
      (''end_time'', JString ''3:30pm''),
      (''court'', JString ''North''),
      (''organizer'', JString ''John Smith''),
      (''players'', JArray [JString ''John Smith'', JString ''Jane Doe''])]"

text \<open>The same object with the date that \<^verbatim>\<open>json.loads\<close> makes of \<^verbatim>\<open>"\ud800"\<close>.\<close>

definition surrogate_reservation :: "(string \<times> json) list" where
  "surrogate_reservation =
     [(''is_reservation'', JBool True),
      (''date'', JString [CHR 0xED, CHR 0xA0, CHR 0x80]),
      (''start_time'', JString ''1:30pm''),
      (''end_time'', JString ''3:30pm''),
      (''court'', JString ''North''),
      (''organizer'', JString ''John Smith''),
      (''players'', JArray [JString ''John Smith'', JString ''Jane Doe''])]"

definition rally_request :: HttpRequest where
  "rally_request =
     \<lparr>get_json = Some (JObject
        [(''email_text'', JString ''Reservation for John Smith on Dec 23''),
         (''email_subject'', JString ''Rally Club Reservation'')])\<rparr>"

definition rally_call :: "runtime \<Rightarrow> completion_call" where
  "rally_call rt =
     completion_request rt ''https://test.openai.azure.com'' ''test-key'' ''gpt-4o-mini''
       (JString ''Rally Club Reservation'') (JString ''Reservation for John Smith on Dec 23'')"

section \<open>Properties\<close>

subsection \<open>The stages of \<^verbatim>\<open>parse_email\<close>\<close>

text \<open>
  A run that called the model called it once, and returns what the outer \<^verbatim>\<open>try\<close> made of
  that call.
\<close>

lemma parse_email_asks:
  "model_calls (parse_email rt env req) = [call] \<Longrightarrow>
   result (parse_email rt env req) = Inr (ask_model rt call)"
  by (auto simp: parse_email_def Let_def returns_def raises_def
       split: if_splits option.splits json.splits sum.splits bool.splits)

lemma rally_calls:
  "model_calls (parse_email rt test_environ rally_request) = [rally_call rt]"
  by (simp add: parse_email_def test_environ_def rally_request_def rally_call_def dict_get_def
       skip_ai_def sublist_code(3) Let_def)

lemma mock_runtime_reply:
  "chat_completion (mock_runtime reply decoded) call = Content (Some reply)"
  "json_loads (mock_runtime reply decoded) reply = decoded"
  "exc_str (mock_runtime reply decoded) = mock_str"
  by (simp_all add: mock_runtime_def mock_client_def mock_loads_def)

lemma ask_model_decode_error:
  "chat_completion rt call = Content (Some t) \<Longrightarrow> json_loads rt t = Inl e \<Longrightarrow>
   ask_model rt call =
     (if parse_failure e
      then json_response
             (JObject [(''is_reservation'', JBool False),
                       (''error'', JString (''Failed to parse AI response: '' @ exc_str rt e))])
             200
      else json_response
             (JObject [(''error'', JString (''AI processing failed: '' @ exc_str rt e))]) 500)"
  by (simp add: ask_model_def validate_reply_def)

lemma construct_not_object:
  "\<forall>kwargs. v \<noteq> JObject kwargs \<Longrightarrow> construct v = Inl (TypeError (NotMapping v))"
  by (cases v) (auto simp: construct_def)

lemma ask_model_not_object:
  "chat_completion rt call = Content (Some t) \<Longrightarrow> json_loads rt t = Inr v \<Longrightarrow>
   \<forall>kwargs. v \<noteq> JObject kwargs \<Longrightarrow>
   ask_model rt call =
     json_response
       (JObject [(''error'', JString (''AI processing failed: '' @
                                      exc_str rt (TypeError (NotMapping v))))]) 500"
  by (simp add: ask_model_def validate_reply_def construct_not_object)

text \<open>
  The serialiser raises exactly when one of the model's strings holds a lone surrogate,
  and then it is a \<^verbatim>\<open>PydanticSerializationError\<close>, which neither \<^verbatim>\<open>except\<close> clause of the inner
  \<^verbatim>\<open>try\<close> names.
\<close>

lemma model_dump_json_Inl:
  "model_dump_json r = Inl e \<Longrightarrow> \<exists>s. e = PydanticSerializationError s \<and> lone_surrogate s"
  by (auto simp: model_dump_json_def find_Some_iff split: option.splits)

lemma model_dump_json_clean:
  "\<not> list_ex lone_surrogate (str_values r) \<Longrightarrow>
   model_dump_json r =
     Inr (JObject
           [(''is_reservation'', JBool (is_reservation r)),
            (''date'', dump_str (date r)),
            (''start_time'', dump_str (start_time r)),
            (''end_time'', dump_str (end_time r)),
            (''court'', dump_str (court r)),
            (''organizer'', dump_str (organizer r)),
            (''players'', dump_str_list (players r)),
            (''error'', dump_str (error r))])"
  by (simp add: model_dump_json_def list_ex_iff find_None_iff split: option.splits)

lemma model_dump_json_surrogate:
  assumes "list_ex lone_surrogate (str_values r)"
  shows "\<exists>s. model_dump_json r = Inl (PydanticSerializationError s) \<and> lone_surrogate s"
proof -
  have "List.find lone_surrogate (str_values r) \<noteq> None"
    using assms by (auto simp: find_None_iff list_ex_iff)
  then obtain s where s: "List.find lone_surrogate (str_values r) = Some s"
    by auto
  then have "lone_surrogate s"
    by (auto simp: find_Some_iff)
  with s show ?thesis
    by (simp add: model_dump_json_def)
qed

lemma model_dump_json_Inr:
  "model_dump_json r = Inr dumped \<Longrightarrow>
   dumped =
     JObject
       [(''is_reservation'', JBool (is_reservation r)),
        (''date'', dump_str (date r)),
        (''start_time'', dump_str (start_time r)),
        (''end_time'', dump_str (end_time r)),
        (''court'', dump_str (court r)),
        (''organizer'', dump_str (organizer r)),
        (''players'', dump_str_list (players r)),
        (''error'', dump_str (error r))]"
  by (auto simp: model_dump_json_def split: option.splits)

lemma ask_model_valid:
  "chat_completion rt call = Content (Some t) \<Longrightarrow> json_loads rt t = Inr (JObject kwargs) \<Longrightarrow>
   ReservationResponse_init kwargs = Inr reservation \<Longrightarrow>
   model_dump_json reservation = Inr dumped \<Longrightarrow>
   ask_model rt call = json_response dumped 200"
  by (simp add: ask_model_def validate_reply_def construct_def)

lemma ask_model_unserialisable:
  assumes "chat_completion rt call = Content (Some t)"
    and "json_loads rt t = Inr (JObject kwargs)"
    and "ReservationResponse_init kwargs = Inr reservation"
    and "model_dump_json reservation = Inl e"
  shows "ask_model rt call =
           json_response
             (JObject [(''error'', JString (''AI processing failed: '' @ exc_str rt e))]) 500"
proof -
  obtain s where "e = PydanticSerializationError s"
    using model_dump_json_Inl [OF assms(4)] by blast
  then show ?thesis
    using assms by (simp add: ask_model_def validate_reply_def construct_def)
qed

subsection \<open>Validation field by field\<close>

lemma init_Inr_iff:
  "ReservationResponse_init kwargs = Inr r \<longleftrightarrow>
     required_bool ''is_reservation'' (map_of kwargs ''is_reservation'') = Inr (is_reservation r) \<and>
     optional_str ''date'' (map_of kwargs ''date'') = Inr (date r) \<and>
     optional_str ''start_time'' (map_of kwargs ''start_time'') = Inr (start_time r) \<and>
     optional_str ''end_time'' (map_of kwargs ''end_time'') = Inr (end_time r) \<and>
     optional_str ''court'' (map_of kwargs ''court'') = Inr (court r) \<and>
     optional_str ''organizer'' (map_of kwargs ''organizer'') = Inr (organizer r) \<and>
     optional_str_list ''players'' (map_of kwargs ''players'') = Inr (players r) \<and>
     optional_str ''error'' (map_of kwargs ''error'') = Inr (error r)"
  by (cases r) (auto simp: ReservationResponse_init_def Let_def split: sum.splits)

lemma init_first_error:
  "required_bool ''is_reservation'' (map_of kwargs ''is_reservation'') = Inl [err] \<Longrightarrow>
   \<exists>errs. ReservationResponse_init kwargs = Inl (ValidationError (err # errs))"
  by (auto simp: ReservationResponse_init_def Let_def errors_of_def split: sum.splits)

lemma str_items_strings: "str_items name i (map JString items) = ([], items)"
  by (induction items arbitrary: i) simp_all

lemma optional_str_Inr:
  "optional_str name arg = Inr v \<longleftrightarrow>
     (arg = None \<or> arg = Some JNull) \<and> v = None \<or> (\<exists>s. arg = Some (JString s) \<and> v = Some s)"
  by (auto simp: optional_str_def split: option.splits json.splits)

lemma lower_words:
  "map ascii_lower ''f'' = ''f''" "map ascii_lower ''n'' = ''n''"
  "map ascii_lower ''no'' = ''no''" "map ascii_lower ''off'' = ''off''"
  "map ascii_lower ''false'' = ''false''" "map ascii_lower ''t'' = ''t''"
  "map ascii_lower ''y'' = ''y''" "map ascii_lower ''on'' = ''on''"
  "map ascii_lower ''yes'' = ''yes''" "map ascii_lower ''true'' = ''true''"
  by (simp_all add: ascii_lower_def)

lemma if_chain_None:
  "((if A then Some x else if B then Some y else None) = None) = (\<not> A \<and> \<not> B)"
  by simp

lemma str_as_bool_None:
  "str_as_bool s = None \<longleftrightarrow>
     s \<noteq> ''0'' \<and> s \<noteq> ''1'' \<and>
     map ascii_lower s \<notin>
       {''f'', ''n'', ''no'', ''off'', ''false'', ''t'', ''y'', ''on'', ''yes'', ''true''}"
  unfolding str_as_bool_def eq_ignore_ascii_case_def lower_words if_chain_None insert_iff empty_iff
  by (simp only: de_Morgan_disj simp_thms conj_ac)

lemma lower_zero_one: "map ascii_lower ''0'' = ''0''" "map ascii_lower ''1'' = ''1''"
  by (simp_all add: ascii_lower_def)

lemma str_as_bool_False:
  "map ascii_lower s \<in> {''f'', ''n'', ''no'', ''off'', ''false''} \<Longrightarrow> str_as_bool s = Some False"
  unfolding str_as_bool_def eq_ignore_ascii_case_def lower_words insert_iff empty_iff
  by (simp only: simp_thms if_True)

lemma str_as_bool_True:
  assumes "map ascii_lower s \<in> {''t'', ''y'', ''on'', ''yes'', ''true''}"
  shows "str_as_bool s = Some True"
proof -
  have "s \<noteq> ''0''"
    using assms lower_zero_one(1) by auto
  moreover have "map ascii_lower s \<notin> {''f'', ''n'', ''no'', ''off'', ''false''}"
    using assms by auto
  ultimately show ?thesis
    using assms
    unfolding str_as_bool_def eq_ignore_ascii_case_def lower_words insert_iff empty_iff
    by (simp only: simp_thms if_True if_False de_Morgan_disj)
qed

lemma truthy_opt_iff: "truthy_opt v \<longleftrightarrow> (\<exists>s. v = Some s \<and> s \<noteq> [])"
  by (cases v) simp_all

lemma optional_str_string: "optional_str name (Some (JString s)) = Inr (Some s)"
  by (simp add: optional_str_def)

lemma skip_ai_strings:
  "skip_ai (JString t) (JString s) =
     Inr (\<not> (sublist ''Rally Club'' t \<or> sublist ''Rally Club'' s))"
  by (simp add: skip_ai_def split: bool.split)

subsection \<open>Configuration and the health handler\<close>

text \<open>
  C5. When the endpoint or the credential is absent from the environment, \<^verbatim>\<open>parse_email\<close>
  answers 500 with the single field \<^verbatim>\<open>error\<close>, whatever the request is: the check comes
  before the body is read, so a malformed body or one without \<^verbatim>\<open>email_text\<close> changes nothing,
  and the model is not called.
\<close>

theorem parse_email_config_check_first:
  assumes "env ''AZURE_OPENAI_ENDPOINT'' = None \<or> env ''AZURE_OPENAI_API_KEY'' = None"
  shows "parse_email rt env req =
           \<lparr>result = Inr \<lparr>body = JObject [(''error'', JString ''Azure OpenAI not configured'')],
                          status_code = 500, mimetype = ''application/json''\<rparr>,
            model_calls = []\<rparr>"
  using assms
  by (elim disjE) (simp_all add: parse_email_def returns_def json_response_def)

theorem parse_email_config_check_first_witness:
  "parse_email (mock_runtime ''[]'' (Inr (JArray []))) Map.empty \<lparr>get_json = None\<rparr> =
     \<lparr>result = Inr \<lparr>body = JObject [(''error'', JString ''Azure OpenAI not configured'')],
                    status_code = 500, mimetype = ''application/json''\<rparr>,
      model_calls = []\<rparr>
   \<and> parse_email (mock_runtime ''[]'' (Inr (JArray [])))
        [''AZURE_OPENAI_ENDPOINT'' \<mapsto> ''https://test.openai.azure.com'']
        \<lparr>get_json = Some (JObject [(''email_subject'', JString ''Test'')])\<rparr> =
     \<lparr>result = Inr \<lparr>body = JObject [(''error'', JString ''Azure OpenAI not configured'')],
                    status_code = 500, mimetype = ''application/json''\<rparr>,
      model_calls = []\<rparr>"
  using parse_email_config_check_first [of Map.empty
          "mock_runtime ''[]'' (Inr (JArray []))" "\<lparr>get_json = None\<rparr>"]
        parse_email_config_check_first
          [of "[''AZURE_OPENAI_ENDPOINT'' \<mapsto> ''https://test.openai.azure.com'']"
              "mock_runtime ''[]'' (Inr (JArray []))"
              "\<lparr>get_json = Some (JObject [(''email_subject'', JString ''Test'')])\<rparr>"]
  by simp

text \<open>
  C9. \<^verbatim>\<open>health\<close> returns a response for every environment and request: status 200 and the
  body \<^verbatim>\<open>{"status": "ok", "openai_configured": b}\<close>, where \<^verbatim>\<open>b\<close> holds exactly when the
  endpoint and the credential are both set and not empty.
\<close>

theorem health_reports_configuration:
  "health env req =
     \<lparr>body = JObject
        [(''status'', JString ''ok''),
         (''openai_configured'',
          JBool ((\<exists>endpoint. env ''AZURE_OPENAI_ENDPOINT'' = Some endpoint \<and> endpoint \<noteq> []) \<and>
                 (\<exists>key. env ''AZURE_OPENAI_API_KEY'' = Some key \<and> key \<noteq> [])))],
      status_code = 200, mimetype = ''application/json''\<rparr>"
proof -
  have "truthy_opt (py_and a b) = (truthy_opt a \<and> truthy_opt b)" for a b
    by (simp add: py_and_def)
  then show ?thesis
    by (simp add: health_def json_response_def truthy_opt_iff)
qed

theorem health_reports_configuration_witness:
  "health test_environ \<lparr>get_json = None\<rparr> =
     \<lparr>body = JObject [(''status'', JString ''ok''), (''openai_configured'', JBool True)],
      status_code = 200, mimetype = ''application/json''\<rparr>
   \<and> health (test_environ(''AZURE_OPENAI_API_KEY'' \<mapsto> '''')) \<lparr>get_json = None\<rparr> =
     \<lparr>body = JObject [(''status'', JString ''ok''), (''openai_configured'', JBool False)],
      status_code = 200, mimetype = ''application/json''\<rparr>
   \<and> health Map.empty \<lparr>get_json = None\<rparr> =
     \<lparr>body = JObject [(''status'', JString ''ok''), (''openai_configured'', JBool False)],
      status_code = 200, mimetype = ''application/json''\<rparr>"
  using health_reports_configuration [of test_environ "\<lparr>get_json = None\<rparr>"]
        health_reports_configuration
          [of "test_environ(''AZURE_OPENAI_API_KEY'' \<mapsto> '''')" "\<lparr>get_json = None\<rparr>"]
        health_reports_configuration [of Map.empty "\<lparr>get_json = None\<rparr>"]
  by (simp add: test_environ_def)

subsection \<open>The request: field check and quick check\<close>




text \<open>
  C4. The quick check, for every subject and body string: the condition that skips the
  model is false exactly when \<^verbatim>\<open>Rally Club\<close>, letter for letter, is a substring of the body
  or of the subject. For a request that reaches the check (configuration present, body
  an object, \<^verbatim>\<open>email_text\<close> a string that is not empty, \<^verbatim>\<open>email_subject\<close> a string or left
  out), the model is called exactly in that case; when the marker is in neither, the run
  returns 200 with the body \<^verbatim>\<open>{"is_reservation": false}\<close> and no call to the model is made.
\<close>

theorem quick_check_rally_club:
  "skip_ai (JString text) (JString subject) =
     Inr (\<not> ((\<exists>before after. text = before @ ''Rally Club'' @ after) \<or>
              (\<exists>before after. subject = before @ ''Rally Club'' @ after)))
   \<and> (env ''AZURE_OPENAI_ENDPOINT'' = Some endpoint \<and> endpoint \<noteq> [] \<and>
       env ''AZURE_OPENAI_API_KEY'' = Some key \<and> key \<noteq> [] \<and>
       get_json req = Some (JObject req_body) \<and>
       map_of req_body ''email_text'' = Some (JString text) \<and> text \<noteq> [] \<and>
       dict_get req_body ''email_subject'' (JString '''') = JString subject \<longrightarrow>
       (model_calls (parse_email rt env req) \<noteq> []) =
         ((\<exists>before after. text = before @ ''Rally Club'' @ after) \<or>
          (\<exists>before after. subject = before @ ''Rally Club'' @ after))
       \<and> (if (\<exists>before after. text = before @ ''Rally Club'' @ after) \<or>
              (\<exists>before after. subject = before @ ''Rally Club'' @ after)
          then \<exists>call. model_calls (parse_email rt env req) = [call]
          else parse_email rt env req =
                 \<lparr>result = Inr \<lparr>body = JObject [(''is_reservation'', JBool False)],
                                status_code = 200, mimetype = ''application/json''\<rparr>,
                  model_calls = []\<rparr>))"
  (is "?filter \<and> (?reached \<longrightarrow> ?handled)")
proof (rule conjI)
  show ?filter
    unfolding skip_ai_strings sublist_def [symmetric] ..
next
  show "?reached \<longrightarrow> ?handled"
  proof (rule impI)
    assume reached: ?reached
    then have the_text: "dict_get req_body ''email_text'' (JString '''') = JString text"
      by (simp add: dict_get_def)
    have run: "parse_email rt env req =
        (case skip_ai (JString text) (JString subject) of
           Inl e \<Rightarrow> raises e
         | Inr True \<Rightarrow> returns (json_response (JObject [(''is_reservation'', JBool False)]) 200)
         | Inr False \<Rightarrow>
             \<lparr>result = Inr (ask_model rt
                (completion_request rt endpoint key
                   (case env ''AZURE_OPENAI_DEPLOYMENT_NAME'' of
                      None \<Rightarrow> ''gpt-4o-mini'' | Some name \<Rightarrow> name)
                   (JString subject) (JString text))),
              model_calls = [completion_request rt endpoint key
                   (case env ''AZURE_OPENAI_DEPLOYMENT_NAME'' of
                      None \<Rightarrow> ''gpt-4o-mini'' | Some name \<Rightarrow> name)
                   (JString subject) (JString text)]\<rparr>)"
      using reached
      by (simp add: parse_email_def the_text Let_def split: sum.split bool.split)
    show ?handled
      unfolding run skip_ai_strings sublist_def [symmetric]
      by (simp add: returns_def json_response_def)
  qed
qed

theorem quick_check_rally_club_witness:
  "parse_email (mock_runtime ''[]'' (Inr (JArray []))) test_environ
     \<lparr>get_json = Some (JObject [(''email_text'', JString ''Hey, want to play pickleball?''),
                                (''email_subject'', JString ''rally club'')])\<rparr> =
     \<lparr>result = Inr \<lparr>body = JObject [(''is_reservation'', JBool False)],
                    status_code = 200, mimetype = ''application/json''\<rparr>,
      model_calls = []\<rparr>
   \<and> (\<exists>call. model_calls (parse_email (mock_runtime ''[]'' (Inr (JArray []))) test_environ
        \<lparr>get_json = Some (JObject [(''email_text'', JString ''See you at Rally Club.'')])\<rparr>)
        = [call])"
proof -
  have no: "\<not> sublist ''Rally Club'' ''Hey, want to play pickleball?''"
       "\<not> sublist ''Rally Club'' ''rally club''"
       "\<not> sublist ''Rally Club'' ''''"
    by (simp_all add: sublist_code(3))
  have yes: "sublist ''Rally Club'' ''See you at Rally Club.''"
    by (simp add: sublist_code(3))
  show ?thesis
    using quick_check_rally_club
            [of "''Hey, want to play pickleball?''" "''rally club''"
                test_environ "''https://test.openai.azure.com''" "''test-key''"
                "\<lparr>get_json = Some (JObject
                    [(''email_text'', JString ''Hey, want to play pickleball?''),
                     (''email_subject'', JString ''rally club'')])\<rparr>"
                "[(''email_text'', JString ''Hey, want to play pickleball?''),
                  (''email_subject'', JString ''rally club'')]"
                "mock_runtime ''[]'' (Inr (JArray []))"]
          quick_check_rally_club
            [of "''See you at Rally Club.''" "''''"
                test_environ "''https://test.openai.azure.com''" "''test-key''"
                "\<lparr>get_json = Some (JObject
                    [(''email_text'', JString ''See you at Rally Club.'')])\<rparr>"
                "[(''email_text'', JString ''See you at Rally Club.'')]"
                "mock_runtime ''[]'' (Inr (JArray []))"]
          no yes
    unfolding sublist_def [symmetric]
    by (simp add: test_environ_def dict_get_def)
qed

subsection \<open>The model's reply\<close>

text \<open>
  C6. The code at a reply that \<^verbatim>\<open>json.loads\<close> cannot decode, whenever the model was called.
  When the decoder raises \<^verbatim>\<open>JSONDecodeError\<close>, as for the text \<^verbatim>\<open>not valid json\<close>, the inner
  \<^verbatim>\<open>except\<close> clause answers 200 with the body
  \<^verbatim>\<open>{"is_reservation": false, "error": "Failed to parse AI response: <cause>"}\<close>. When it
  raises \<^verbatim>\<open>RecursionError\<close> (brackets nested deeper than the interpreter's stack) or a plain
  \<^verbatim>\<open>ValueError\<close> (an integer of more digits than the interpreter converts), the clause does
  not name the class, and the outer one answers 500 with
  \<^verbatim>\<open>{"error": "AI processing failed: <cause>"}\<close>.
\<close>

theorem undecodable_reply_answers:
  assumes "model_calls (parse_email rt env req) = [call]"
    and "chat_completion rt call = Content (Some reply)"
    and "json_loads rt reply = Inl e"
  shows "(\<forall>m. e = JSONDecodeError m \<longrightarrow>
            result (parse_email rt env req) =
              Inr \<lparr>body = JObject
                     [(''is_reservation'', JBool False),
                      (''error'', JString (''Failed to parse AI response: '' @ exc_str rt e))],
                   status_code = 200, mimetype = ''application/json''\<rparr>)
         \<and> (e = RecursionError \<or> (\<exists>m. e = ValueError m) \<longrightarrow>
            result (parse_email rt env req) =
              Inr \<lparr>body = JObject
                     [(''error'', JString (''AI processing failed: '' @ exc_str rt e))],
                   status_code = 500, mimetype = ''application/json''\<rparr>)"
  using parse_email_asks [OF assms(1)] ask_model_decode_error [OF assms(2,3)]
  by (auto simp: json_response_def)

theorem undecodable_reply_answers_witness:
  "result (parse_email
            (mock_runtime ''not valid json''
               (Inl (JSONDecodeError ''Expecting value: line 1 column 1 (char 0)'')))
            test_environ rally_request) =
     Inr \<lparr>body = JObject
            [(''is_reservation'', JBool False),
             (''error'', JString (''Failed to parse AI response: '' @
                                  ''Expecting value: line 1 column 1 (char 0)''))],
          status_code = 200, mimetype = ''application/json''\<rparr>
   \<and> result (parse_email
            (mock_runtime (replicate 1200 (CHR ''['')) (Inl RecursionError))
            test_environ rally_request) =
     Inr \<lparr>body = JObject
            [(''error'', JString (''AI processing failed: '' @
                                  ''maximum recursion depth exceeded''))],
          status_code = 500, mimetype = ''application/json''\<rparr>"
  using undecodable_reply_answers
          [where rt = "mock_runtime ''not valid json''
                         (Inl (JSONDecodeError ''Expecting value: line 1 column 1 (char 0)''))"
             and e = "JSONDecodeError ''Expecting value: line 1 column 1 (char 0)''",
           OF rally_calls mock_runtime_reply(1) mock_runtime_reply(2)]
        undecodable_reply_answers
          [where rt = "mock_runtime (replicate 1200 (CHR ''['')) (Inl RecursionError)"
             and e = RecursionError,
           OF rally_calls mock_runtime_reply(1) mock_runtime_reply(2)]
  by (simp add: mock_runtime_reply(3))

text \<open>
  C1. The code at a reply that is valid JSON but no object: \<^verbatim>\<open>ReservationResponse(**v)\<close>
  raises \<^verbatim>\<open>TypeError\<close>, which the inner \<^verbatim>\<open>except\<close> clause does not name, so the outer one
  answers 500 with \<^verbatim>\<open>{"error": "AI processing failed: <cause>"}\<close>.
\<close>

theorem non_object_reply_is_answered_500:
  assumes "model_calls (parse_email rt env req) = [call]"
    and "chat_completion rt call = Content (Some reply)"
    and "json_loads rt reply = Inr v"
    and "\<forall>kwargs. v \<noteq> JObject kwargs"
  shows "result (parse_email rt env req) =
           Inr \<lparr>body = JObject
                  [(''error'', JString (''AI processing failed: '' @
                                        exc_str rt (TypeError (NotMapping v))))],
                status_code = 500, mimetype = ''application/json''\<rparr>"
  using parse_email_asks [OF assms(1)] ask_model_not_object [OF assms(2,3,4)]
  by (simp add: json_response_def)

theorem non_object_reply_is_answered_500_witness:
  "result (parse_email (mock_runtime ''[]'' (Inr (JArray []))) test_environ rally_request) =
     Inr \<lparr>body = JObject [(''error'', JString ''AI processing failed: type error'')],
          status_code = 500, mimetype = ''application/json''\<rparr>"
  using non_object_reply_is_answered_500
          [OF rally_calls mock_runtime_reply(1) mock_runtime_reply(2), of "JArray []" "''[]''"]
  by (simp add: mock_runtime_reply(3))

text \<open>
  C2, as the code has it. When the reply decodes to an object that passes validation,
  and the validated model serialises (none of its strings holds a lone surrogate), the
  run returns 200 with the serialised model, and the \<^verbatim>\<open>error\<close> of that body is the \<^verbatim>\<open>error\<close> of
  the model's reply: \<^verbatim>\<open>null\<close> when the reply has no such key, else the reply's own value,
  which validation has found to be \<^verbatim>\<open>null\<close> or a string.
\<close>

theorem success_body_keeps_reply_error:
  assumes "model_calls (parse_email rt env req) = [call]"
    and "chat_completion rt call = Content (Some reply)"
    and "json_loads rt reply = Inr (JObject kwargs)"
    and "ReservationResponse_init kwargs = Inr reservation"
    and "model_dump_json reservation = Inr dumped"
  shows "result (parse_email rt env req) =
           Inr \<lparr>body = dumped, status_code = 200, mimetype = ''application/json''\<rparr>
         \<and> json_field dumped ''error'' =
             Some (case map_of kwargs ''error'' of None \<Rightarrow> JNull | Some v \<Rightarrow> v)
         \<and> (json_field dumped ''error'' = Some JNull \<or>
              (\<exists>m. json_field dumped ''error'' = Some (JString m)))"
proof -
  have "optional_str ''error'' (map_of kwargs ''error'') = Inr (error reservation)"
    using assms(4) by (simp add: init_Inr_iff)
  then have "dump_str (error reservation) =
      (case map_of kwargs ''error'' of None \<Rightarrow> JNull | Some v \<Rightarrow> v)"
    unfolding optional_str_Inr by (auto simp: dump_str_def)
  moreover have "dump_str (error reservation) = JNull \<or>
      (\<exists>m. dump_str (error reservation) = JString m)"
    by (simp add: dump_str_def split: option.split)
  moreover have "json_field dumped ''error'' = Some (dump_str (error reservation))"
    unfolding model_dump_json_Inr [OF assms(5)] by (simp add: json_field_def)
  ultimately show ?thesis
    using parse_email_asks [OF assms(1)] ask_model_valid [OF assms(2,3,4,5)]
    by (simp add: json_response_def)
qed

theorem success_body_keeps_reply_error_witness:
  "result (parse_email
            (mock_runtime reply_not_reservation
               (Inr (JObject [(''is_reservation'', JBool False)])))
            test_environ rally_request) =
     Inr \<lparr>body = JObject
            [(''is_reservation'', JBool False), (''date'', JNull), (''start_time'', JNull),
             (''end_time'', JNull), (''court'', JNull), (''organizer'', JNull),
             (''players'', JNull), (''error'', JNull)],
          status_code = 200, mimetype = ''application/json''\<rparr>"
proof -
  have valid: "ReservationResponse_init [(''is_reservation'', JBool False)] =
      Inr \<lparr>is_reservation = False, date = None, start_time = None, end_time = None,
           court = None, organizer = None, players = None, error = None\<rparr>"
    by (simp add: ReservationResponse_init_def required_bool_def optional_str_def
          optional_str_list_def)
  have dumped: "model_dump_json
      \<lparr>is_reservation = False, date = None, start_time = None, end_time = None,
       court = None, organizer = None, players = None, error = None\<rparr> =
      Inr (JObject
            [(''is_reservation'', JBool False), (''date'', JNull), (''start_time'', JNull),
             (''end_time'', JNull), (''court'', JNull), (''organizer'', JNull),
             (''players'', JNull), (''error'', JNull)])"
    by (simp add: model_dump_json_def str_values_def opt_str_def dump_str_def dump_str_list_def)
  from success_body_keeps_reply_error
         [OF rally_calls mock_runtime_reply(1) mock_runtime_reply(2) valid dumped]
  show ?thesis by simp
qed

text \<open>
  C2 as it was stated fails where the reply itself has an \<^verbatim>\<open>error\<close>: the object
  \<^verbatim>\<open>{"is_reservation": false, "error": "Could not parse email"}\<close> passes validation, and
  the 200 response carries that text.
\<close>

theorem success_body_error_counterexample:
  "ReservationResponse_init
     [(''is_reservation'', JBool False), (''error'', JString ''Could not parse email'')] =
     Inr \<lparr>is_reservation = False, date = None, start_time = None, end_time = None,
          court = None, organizer = None, players = None,
          error = Some ''Could not parse email''\<rparr>
   \<and> result (parse_email
        (mock_runtime reply_with_error
           (Inr (JObject [(''is_reservation'', JBool False),
                          (''error'', JString ''Could not parse email'')])))
        test_environ rally_request) =
     Inr \<lparr>body = JObject
            [(''is_reservation'', JBool False), (''date'', JNull), (''start_time'', JNull),
             (''end_time'', JNull), (''court'', JNull), (''organizer'', JNull),
             (''players'', JNull), (''error'', JString ''Could not parse email'')],
          status_code = 200, mimetype = ''application/json''\<rparr>"
proof -
  have valid: "ReservationResponse_init
     [(''is_reservation'', JBool False), (''error'', JString ''Could not parse email'')] =
     Inr \<lparr>is_reservation = False, date = None, start_time = None, end_time = None,
          court = None, organizer = None, players = None,
          error = Some ''Could not parse email''\<rparr>"
    by (simp add: ReservationResponse_init_def required_bool_def optional_str_def
          optional_str_list_def)
  have dumped: "model_dump_json
      \<lparr>is_reservation = False, date = None, start_time = None, end_time = None,
       court = None, organizer = None, players = None,
       error = Some ''Could not parse email''\<rparr> =
      Inr (JObject
            [(''is_reservation'', JBool False), (''date'', JNull), (''start_time'', JNull),
             (''end_time'', JNull), (''court'', JNull), (''organizer'', JNull),
             (''players'', JNull), (''error'', JString ''Could not parse email'')])"
    by (simp add: model_dump_json_def str_values_def opt_str_def dump_str_def dump_str_list_def)
  have "result (parse_email
        (mock_runtime reply_with_error
           (Inr (JObject [(''is_reservation'', JBool False),
                          (''error'', JString ''Could not parse email'')])))
        test_environ rally_request) =
      Inr (json_response
        (JObject
            [(''is_reservation'', JBool False), (''date'', JNull), (''start_time'', JNull),
             (''end_time'', JNull), (''court'', JNull), (''organizer'', JNull),
             (''players'', JNull), (''error'', JString ''Could not parse email'')]) 200)"
    using parse_email_asks [OF rally_calls]
          ask_model_valid [OF mock_runtime_reply(1) mock_runtime_reply(2) valid dumped]
    by simp
  with valid show ?thesis
    by (simp add: json_response_def)
qed

text \<open>
  A validated model that does not serialise is not a success: the serialiser's exception
  passes the inner \<^verbatim>\<open>except\<close> clause and the outer one answers 500.
\<close>

lemma unserialisable_reply_is_answered_500:
  assumes "model_calls (parse_email rt env req) = [call]"
    and "chat_completion rt call = Content (Some reply)"
    and "json_loads rt reply = Inr (JObject kwargs)"
    and "ReservationResponse_init kwargs = Inr reservation"
    and "model_dump_json reservation = Inl e"
  shows "result (parse_email rt env req) =
           Inr \<lparr>body = JObject
                  [(''error'', JString (''AI processing failed: '' @ exc_str rt e))],
                status_code = 500, mimetype = ''application/json''\<rparr>"
  using parse_email_asks [OF assms(1)] ask_model_unserialisable [OF assms(2,3,4,5)]
  by (simp add: json_response_def)

subsection \<open>The schema\<close>

text \<open>
  C3, as the code has it. Validation fails with an error at \<^verbatim>\<open>is_reservation\<close> when the key
  is missing, and when its value is none of: a boolean; the integer 0 or 1; the float 0.0
  or 1.0; the string \<^verbatim>\<open>0\<close> or \<^verbatim>\<open>1\<close>; a string that, ASCII letters lowered, is one of
  \<^verbatim>\<open>f n no off false t y on yes true\<close>. A model that validates has as its \<^verbatim>\<open>is_reservation\<close>
  what \<open>validate_bool\<close> makes of the value, and \<open>validate_bool\<close> keeps a boolean and converts
  each of the other values listed to the boolean it spells.
\<close>

theorem is_reservation_validation:
  "(map_of kwargs ''is_reservation'' = None \<longrightarrow>
      (\<exists>errs. ReservationResponse_init kwargs =
                Inl (ValidationError (([Field ''is_reservation''], Missing) # errs))))
   \<and> (\<forall>v. map_of kwargs ''is_reservation'' = Some v \<and>
           v \<notin> range JBool \<and>
           v \<notin> {JInt 0, JInt 1, JFloat (Finite 0), JFloat (Finite 1),
                 JString ''0'', JString ''1''} \<and>
           (\<forall>s. v = JString s \<longrightarrow>
                map ascii_lower s \<notin> {''f'', ''n'', ''no'', ''off'', ''false'',
                                        ''t'', ''y'', ''on'', ''yes'', ''true''}) \<longrightarrow>
      (\<exists>errs. ReservationResponse_init kwargs =
                Inl (ValidationError (([Field ''is_reservation''], BoolInvalid) # errs))))
   \<and> (\<forall>r. ReservationResponse_init kwargs = Inr r \<longrightarrow>
          (\<exists>v. map_of kwargs ''is_reservation'' = Some v \<and>
               validate_bool v = Some (is_reservation r)))
   \<and> (\<forall>b. validate_bool (JBool b) = Some b)
   \<and> validate_bool (JInt 0) = Some False \<and> validate_bool (JInt 1) = Some True
   \<and> validate_bool (JFloat (Finite 0)) = Some False
   \<and> validate_bool (JFloat (Finite 1)) = Some True
   \<and> validate_bool (JString ''0'') = Some False \<and> validate_bool (JString ''1'') = Some True
   \<and> (\<forall>s. map ascii_lower s \<in> {''f'', ''n'', ''no'', ''off'', ''false''} \<longrightarrow>
          validate_bool (JString s) = Some False)
   \<and> (\<forall>s. map ascii_lower s \<in> {''t'', ''y'', ''on'', ''yes'', ''true''} \<longrightarrow>
          validate_bool (JString s) = Some True)"
proof -
  have missing: "\<exists>errs. ReservationResponse_init kwargs =
      Inl (ValidationError (([Field ''is_reservation''], Missing) # errs))"
    if "map_of kwargs ''is_reservation'' = None"
  proof -
    have "required_bool ''is_reservation'' (map_of kwargs ''is_reservation'') =
        Inl [([Field ''is_reservation''], Missing)]"
      using that by (simp add: required_bool_def)
    then show ?thesis by (rule init_first_error)
  qed
  have invalid: "\<exists>errs. ReservationResponse_init kwargs =
      Inl (ValidationError (([Field ''is_reservation''], BoolInvalid) # errs))"
    if v: "map_of kwargs ''is_reservation'' = Some v \<and>
           v \<notin> range JBool \<and>
           v \<notin> {JInt 0, JInt 1, JFloat (Finite 0), JFloat (Finite 1),
                 JString ''0'', JString ''1''} \<and>
           (\<forall>s. v = JString s \<longrightarrow>
                map ascii_lower s \<notin> {''f'', ''n'', ''no'', ''off'', ''false'',
                                        ''t'', ''y'', ''on'', ''yes'', ''true''})" for v
  proof -
    have "validate_bool v = None"
    proof (cases v)
      case (JString s)
      with v show ?thesis by (simp add: str_as_bool_None)
    qed (use v in auto)
    with v have "required_bool ''is_reservation'' (map_of kwargs ''is_reservation'') =
        Inl [([Field ''is_reservation''], BoolInvalid)]"
      by (simp add: required_bool_def)
    then show ?thesis by (rule init_first_error)
  qed
  have valid: "\<exists>v. map_of kwargs ''is_reservation'' = Some v \<and>
      validate_bool v = Some (is_reservation r)"
    if "ReservationResponse_init kwargs = Inr r" for r
  proof -
    have "required_bool ''is_reservation'' (map_of kwargs ''is_reservation'') =
        Inr (is_reservation r)"
      using that by (simp add: init_Inr_iff)
    then show ?thesis
      by (simp add: required_bool_def split: option.splits)
  qed
  have digits: "str_as_bool ''0'' = Some False" "str_as_bool ''1'' = Some True"
    by (simp_all add: str_as_bool_def eq_ignore_ascii_case_def ascii_lower_def)
  show ?thesis
    by (intro conjI allI impI;
        ((rule missing invalid valid, assumption) |
         simp add: digits str_as_bool_False str_as_bool_True del: insert_iff))
qed

theorem is_reservation_validation_witness:
  "(\<exists>errs. ReservationResponse_init [(''date'', JString ''2024-12-23'')] =
            Inl (ValidationError (([Field ''is_reservation''], Missing) # errs)))
   \<and> (\<exists>errs. ReservationResponse_init [(''is_reservation'', JString ''maybe'')] =
            Inl (ValidationError (([Field ''is_reservation''], BoolInvalid) # errs)))
   \<and> (\<exists>errs. ReservationResponse_init [(''is_reservation'', JInt 2)] =
            Inl (ValidationError (([Field ''is_reservation''], BoolInvalid) # errs)))
   \<and> validate_bool (JString ''Yes'') = Some True"
proof -
  have lowered: "map ascii_lower ''maybe'' = ''maybe''"
    by (simp add: ascii_lower_def)
  have yes: "ReservationResponse_init [(''is_reservation'', JString ''Yes'')] =
      Inr \<lparr>is_reservation = True, date = None, start_time = None, end_time = None,
           court = None, organizer = None, players = None, error = None\<rparr>"
    by (simp add: ReservationResponse_init_def required_bool_def optional_str_def
          optional_str_list_def str_as_bool_def eq_ignore_ascii_case_def ascii_lower_def)
  show ?thesis
    using is_reservation_validation [of "[(''date'', JString ''2024-12-23'')]"]
          is_reservation_validation [of "[(''is_reservation'', JString ''maybe'')]"]
          is_reservation_validation [of "[(''is_reservation'', JInt 2)]"]
          is_reservation_validation [of "[(''is_reservation'', JString ''Yes'')]"]
          lowered yes
    by (simp add: image_iff)
qed

text \<open>
  C3 as it was stated fails at the string \<^verbatim>\<open>"true"\<close> and at the number 1: both are
  accepted and converted to \<^verbatim>\<open>True\<close>.
\<close>

theorem is_reservation_coercion_counterexample:
  "ReservationResponse_init [(''is_reservation'', JString ''true'')] =
     Inr \<lparr>is_reservation = True, date = None, start_time = None, end_time = None,
          court = None, organizer = None, players = None, error = None\<rparr>
   \<and> ReservationResponse_init [(''is_reservation'', JInt 1)] =
     Inr \<lparr>is_reservation = True, date = None, start_time = None, end_time = None,
          court = None, organizer = None, players = None, error = None\<rparr>"
  by (simp add: ReservationResponse_init_def required_bool_def optional_str_def
        optional_str_list_def str_as_bool_def eq_ignore_ascii_case_def ascii_lower_def)

text \<open>
  C8, as the code has it. An object with a boolean \<^verbatim>\<open>is_reservation\<close>, strings for \<^verbatim>\<open>date\<close>,
  \<^verbatim>\<open>start_time\<close>, \<^verbatim>\<open>end_time\<close>, \<^verbatim>\<open>court\<close> and \<^verbatim>\<open>organizer\<close>, a list of strings for \<^verbatim>\<open>players\<close>,
  and an \<^verbatim>\<open>error\<close> that is left out, \<^verbatim>\<open>null\<close> or a string, validates, and the model holds
  those values, the players in the order given. When none of the strings holds a lone
  surrogate, the model serialises, and the serialisation has under each of the seven
  keys the value the object has there. When one of them does, \<^verbatim>\<open>model_dump_json\<close> raises
  \<^verbatim>\<open>PydanticSerializationError\<close> and nothing is serialised.
\<close>

theorem reservation_round_trip:
  assumes "map_of kwargs ''is_reservation'' = Some (JBool b)"
    and "map_of kwargs ''date'' = Some (JString d)"
    and "map_of kwargs ''start_time'' = Some (JString st)"
    and "map_of kwargs ''end_time'' = Some (JString et)"
    and "map_of kwargs ''court'' = Some (JString c)"
    and "map_of kwargs ''organizer'' = Some (JString org)"
    and "map_of kwargs ''players'' = Some (JArray (map JString ps))"
    and "map_of kwargs ''error'' = None \<or> map_of kwargs ''error'' = Some JNull \<or>
         (\<exists>m. map_of kwargs ''error'' = Some (JString m))"
  shows "\<exists>r. ReservationResponse_init kwargs = Inr r
           \<and> is_reservation r = b \<and> date r = Some d \<and> start_time r = Some st
           \<and> end_time r = Some et \<and> court r = Some c \<and> organizer r = Some org
           \<and> players r = Some ps
           \<and> (if list_ex lone_surrogate
                    (d # st # et # c # org # ps @
                     (case map_of kwargs ''error'' of Some (JString m) \<Rightarrow> [m] | _ \<Rightarrow> []))
               then \<exists>s. model_dump_json r = Inl (PydanticSerializationError s) \<and>
                        lone_surrogate s
               else \<exists>dumped. model_dump_json r = Inr dumped
                 \<and> json_field dumped ''is_reservation'' = map_of kwargs ''is_reservation''
                 \<and> json_field dumped ''date'' = map_of kwargs ''date''
                 \<and> json_field dumped ''start_time'' = map_of kwargs ''start_time''
                 \<and> json_field dumped ''end_time'' = map_of kwargs ''end_time''
                 \<and> json_field dumped ''court'' = map_of kwargs ''court''
                 \<and> json_field dumped ''organizer'' = map_of kwargs ''organizer''
                 \<and> json_field dumped ''players'' = map_of kwargs ''players'')"
proof -
  have "\<exists>err. optional_str ''error'' (map_of kwargs ''error'') = Inr err"
    using assms(8) by (elim disjE exE) (simp_all add: optional_str_def)
  then obtain err where err: "optional_str ''error'' (map_of kwargs ''error'') = Inr err" ..
  define r where "r = \<lparr>is_reservation = b, date = Some d, start_time = Some st,
    end_time = Some et, court = Some c, organizer = Some org, players = Some ps,
    error = err\<rparr>"
  have valid: "ReservationResponse_init kwargs = Inr r"
    unfolding init_Inr_iff
    by (simp add: r_def assms(1-7) err required_bool_def optional_str_string
          optional_str_list_def str_items_strings)
  have "opt_str err = (case map_of kwargs ''error'' of Some (JString m) \<Rightarrow> [m] | _ \<Rightarrow> [])"
    using err unfolding optional_str_Inr by (auto simp: opt_str_def)
  then have strs: "str_values r = d # st # et # c # org # ps @
      (case map_of kwargs ''error'' of Some (JString m) \<Rightarrow> [m] | _ \<Rightarrow> [])"
    by (simp add: r_def str_values_def opt_str_def)
  have fields: "is_reservation r = b" "date r = Some d" "start_time r = Some st"
    "end_time r = Some et" "court r = Some c" "organizer r = Some org" "players r = Some ps"
    by (simp_all add: r_def)
  show ?thesis
  proof (cases "list_ex lone_surrogate (str_values r)")
    case True
    from model_dump_json_surrogate [OF this] True valid fields show ?thesis
      unfolding strs by (intro exI [of _ r]) simp
  next
    case False
    have "json_field (JObject
           [(''is_reservation'', JBool (is_reservation r)),
            (''date'', dump_str (date r)),
            (''start_time'', dump_str (start_time r)),
            (''end_time'', dump_str (end_time r)),
            (''court'', dump_str (court r)),
            (''organizer'', dump_str (organizer r)),
            (''players'', dump_str_list (players r)),
            (''error'', dump_str (error r))]) k = map_of kwargs k"
      if "k \<in> {''is_reservation'', ''date'', ''start_time'', ''end_time'', ''court'',
                ''organizer'', ''players''}" for k
      using that
      by (auto simp: fields assms(1-7) json_field_def dump_str_def dump_str_list_def)
    with model_dump_json_clean [OF False] False valid fields show ?thesis
      unfolding strs by (intro exI [of _ r]) simp
  qed
qed

theorem reservation_round_trip_witness:
  "\<exists>r. ReservationResponse_init full_reservation = Inr r
      \<and> is_reservation r = True \<and> date r = Some ''2024-12-23''
      \<and> start_time r = Some ''1:30pm'' \<and> end_time r = Some ''3:30pm''
      \<and> court r = Some ''North'' \<and> organizer r = Some ''John Smith''
      \<and> players r = Some [''John Smith'', ''Jane Doe'']
      \<and> (\<exists>dumped. model_dump_json r = Inr dumped
        \<and> json_field dumped ''is_reservation'' = Some (JBool True)
        \<and> json_field dumped ''date'' = Some (JString ''2024-12-23'')
        \<and> json_field dumped ''start_time'' = Some (JString ''1:30pm'')
        \<and> json_field dumped ''end_time'' = Some (JString ''3:30pm'')
        \<and> json_field dumped ''court'' = Some (JString ''North'')
        \<and> json_field dumped ''organizer'' = Some (JString ''John Smith'')
        \<and> json_field dumped ''players'' =
            Some (JArray [JString ''John Smith'', JString ''Jane Doe'']))"
  using reservation_round_trip
          [of full_reservation True "''2024-12-23''" "''1:30pm''" "''3:30pm''" "''North''"
              "''John Smith''" "[''John Smith'', ''Jane Doe'']"]
  by (simp add: full_reservation_def)

text \<open>
  C8 as it was stated fails at a string that holds a lone surrogate. The object of the
  tests with the date replaced by the string that \<^verbatim>\<open>json.loads\<close> makes of \<^verbatim>\<open>"\ud800"\<close>
  validates, and its serialisation raises.
\<close>

theorem reservation_round_trip_counterexample:
  "ReservationResponse_init surrogate_reservation =
     Inr \<lparr>is_reservation = True, date = Some [CHR 0xED, CHR 0xA0, CHR 0x80],
          start_time = Some ''1:30pm'', end_time = Some ''3:30pm'', court = Some ''North'',
          organizer = Some ''John Smith'', players = Some [''John Smith'', ''Jane Doe''],
          error = None\<rparr>
   \<and> model_dump_json
       \<lparr>is_reservation = True, date = Some [CHR 0xED, CHR 0xA0, CHR 0x80],
        start_time = Some ''1:30pm'', end_time = Some ''3:30pm'', court = Some ''North'',
        organizer = Some ''John Smith'', players = Some [''John Smith'', ''Jane Doe''],
        error = None\<rparr> =
     Inl (PydanticSerializationError [CHR 0xED, CHR 0xA0, CHR 0x80])"
  by (simp add: surrogate_reservation_def ReservationResponse_init_def required_bool_def
        optional_str_def optional_str_list_def model_dump_json_def str_values_def opt_str_def)

subsection \<open>Values of \<^verbatim>\<open>email_text\<close> that are not strings\<close>

text \<open>
  C10. The field check tests truthiness, not type. With the configuration present and a
  body that is an object: an \<^verbatim>\<open>email_text\<close> that is a number other than zero (5, say) or the
  boolean true passes the field check, and the quick check's substring test raises
  \<^verbatim>\<open>TypeError\<close>, which nothing catches; so does, for an \<^verbatim>\<open>email_text\<close> that is a non-empty array
  without the marker among its items, the test on an \<^verbatim>\<open>email_subject\<close> that is \<^verbatim>\<open>null\<close>, a
  boolean or a number. No response is returned and the model is not called. When
  \<^verbatim>\<open>email_text\<close> and \<^verbatim>\<open>email_subject\<close> are strings (or left out), the run returns a response.
\<close>

theorem email_text_not_a_string:
  assumes "env ''AZURE_OPENAI_ENDPOINT'' = Some endpoint" and "endpoint \<noteq> []"
    and "env ''AZURE_OPENAI_API_KEY'' = Some key" and "key \<noteq> []"
    and "get_json req = Some (JObject req_body)"
  shows "(\<forall>v. map_of req_body ''email_text'' = Some v \<and> truthy v \<and>
              ((\<exists>b. v = JBool b) \<or> (\<exists>i. v = JInt i) \<or> (\<exists>f. v = JFloat f)) \<longrightarrow>
            parse_email rt env req =
              \<lparr>result = Inl (TypeError (NotContainer v)), model_calls = []\<rparr>)
         \<and> (\<forall>items w.
              map_of req_body ''email_text'' = Some (JArray items) \<and> items \<noteq> [] \<and>
              JString ''Rally Club'' \<notin> set items \<and>
              map_of req_body ''email_subject'' = Some w \<and>
              (w = JNull \<or> (\<exists>b. w = JBool b) \<or> (\<exists>i. w = JInt i) \<or> (\<exists>f. w = JFloat f)) \<longrightarrow>
            parse_email rt env req =
              \<lparr>result = Inl (TypeError (NotContainer w)), model_calls = []\<rparr>)
         \<and> (\<forall>text subject.
              dict_get req_body ''email_text'' (JString '''') = JString text \<and>
              dict_get req_body ''email_subject'' (JString '''') = JString subject \<longrightarrow>
              (\<exists>response. result (parse_email rt env req) = Inr response))"
proof (intro conjI allI impI)
  fix v
  assume v: "map_of req_body ''email_text'' = Some v \<and> truthy v \<and>
              ((\<exists>b. v = JBool b) \<or> (\<exists>i. v = JInt i) \<or> (\<exists>f. v = JFloat f))"
  then have "skip_ai v (dict_get req_body ''email_subject'' (JString '''')) =
      Inl (TypeError (NotContainer v))"
    by (auto simp: skip_ai_def)
  moreover have "dict_get req_body ''email_text'' (JString '''') = v"
    using v by (simp add: dict_get_def)
  ultimately show "parse_email rt env req =
      \<lparr>result = Inl (TypeError (NotContainer v)), model_calls = []\<rparr>"
    using v by (simp add: parse_email_def assms raises_def)
next
  fix items w
  assume a: "map_of req_body ''email_text'' = Some (JArray items) \<and> items \<noteq> [] \<and>
              JString ''Rally Club'' \<notin> set items \<and>
              map_of req_body ''email_subject'' = Some w \<and>
              (w = JNull \<or> (\<exists>b. w = JBool b) \<or> (\<exists>i. w = JInt i) \<or> (\<exists>f. w = JFloat f))"
  then have "py_in ''Rally Club'' w = Inl (TypeError (NotContainer w))"
    by auto
  with a have "skip_ai (JArray items) w = Inl (TypeError (NotContainer w))"
    by (simp add: skip_ai_def)
  moreover have "dict_get req_body ''email_text'' (JString '''') = JArray items"
    "dict_get req_body ''email_subject'' (JString '''') = w"
    using a by (simp_all add: dict_get_def)
  ultimately show "parse_email rt env req =
      \<lparr>result = Inl (TypeError (NotContainer w)), model_calls = []\<rparr>"
    using a by (simp add: parse_email_def assms raises_def)
next
  fix t s
  assume s: "dict_get req_body ''email_text'' (JString '''') = JString t \<and>
              dict_get req_body ''email_subject'' (JString '''') = JString s"
  then show "\<exists>response. result (parse_email rt env req) = Inr response"
    by (simp add: parse_email_def assms skip_ai_strings returns_def Let_def split: bool.split)
qed

theorem email_text_not_a_string_witness:
  "parse_email (mock_runtime ''[]'' (Inr (JArray []))) test_environ
     \<lparr>get_json = Some (JObject [(''email_text'', JInt 5)])\<rparr> =
     \<lparr>result = Inl (TypeError (NotContainer (JInt 5))), model_calls = []\<rparr>
   \<and> parse_email (mock_runtime ''[]'' (Inr (JArray []))) test_environ
     \<lparr>get_json = Some (JObject [(''email_text'', JArray [JString ''Reservation'']),
                                (''email_subject'', JInt 7)])\<rparr> =
     \<lparr>result = Inl (TypeError (NotContainer (JInt 7))), model_calls = []\<rparr>
   \<and> (\<exists>response.
        result (parse_email (mock_runtime ''[]'' (Inr (JArray []))) test_environ rally_request) =
        Inr response)"
  using email_text_not_a_string
          [of test_environ "''https://test.openai.azure.com''" "''test-key''"
              "\<lparr>get_json = Some (JObject [(''email_text'', JInt 5)])\<rparr>"
              "[(''email_text'', JInt 5)]" "mock_runtime ''[]'' (Inr (JArray []))"]
        email_text_not_a_string
          [of test_environ "''https://test.openai.azure.com''" "''test-key''"
              "\<lparr>get_json = Some (JObject [(''email_text'', JArray [JString ''Reservation'']),
                                         (''email_subject'', JInt 7)])\<rparr>"
              "[(''email_text'', JArray [JString ''Reservation'']),
                (''email_subject'', JInt 7)]"
              "mock_runtime ''[]'' (Inr (JArray []))"]
        email_text_not_a_string
          [of test_environ "''https://test.openai.azure.com''" "''test-key''" rally_request
              "[(''email_text'', JString ''Reservation for John Smith on Dec 23''),
                (''email_subject'', JString ''Rally Club Reservation'')]"
              "mock_runtime ''[]'' (Inr (JArray []))"]
  by (simp add: test_environ_def rally_request_def dict_get_def)

end
